theory Spec2Isabelle
  imports Main
begin

section \<open>Values of the data frame\<close>

text \<open>
  The CORD-19 metadata table is read by \<open>pd.read_csv\<close> into a data frame. The text
  columns (title, abstract, journal, authors, doi) hold a Python \<open>str\<close> or are missing
  (NaN): they are \<open>string option\<close>, \<open>None\<close> the missing value. A \<open>char\<close> stands for one
  code point below 256. The raw \<open>publish_time\<close> cell is what \<open>convert_publish_time\<close>
  inspects with \<open>pd.isna\<close> and \<open>isinstance(_, str)\<close>: missing, a string, or a number.
\<close>

datatype cell = NaN | Str string | Num int

definition isna :: "cell \<Rightarrow> bool" where
  "isna v = (case v of NaN \<Rightarrow> True | _ \<Rightarrow> False)"

text \<open>
  A parsed date: \<open>pd.NaT\<close>, a timestamp without time zone (year, month, day, time of
  day), or a timestamp that carries a UTC offset in minutes as well.
\<close>

datatype timestamp = NaT | Timestamp int nat nat nat | TimestampTz int nat nat nat int

text \<open>The year of one timestamp, missing (NaN) for \<open>NaT\<close>.\<close>

fun dt_year :: "timestamp \<Rightarrow> int option" where
  "dt_year NaT = None"
| "dt_year (Timestamp y m d t) = Some y"
| "dt_year (TimestampTz y m d t off) = Some y"

datatype exn = ParserError | OutOfBoundsDatetime | TypeError | ValueError | AttributeError

text \<open>
  \<open>Series.dt.year\<close> on the column that \<open>apply\<close> returned. The \<open>.dt\<close> accessor needs a
  datetime column: the column is one when it has a row and its timestamps are all
  without time zone or all of one UTC offset. An empty column, or one that mixes
  offsets, has the dtype \<open>object\<close>, and \<open>.dt\<close> raises \<open>AttributeError\<close>.
\<close>

fun offsets :: "timestamp list \<Rightarrow> int option list" where
  "offsets [] = []"
| "offsets (NaT # ts) = offsets ts"
| "offsets (Timestamp y m d t # ts) = None # offsets ts"
| "offsets (TimestampTz y m d t off # ts) = Some off # offsets ts"

definition datetimelike :: "timestamp list \<Rightarrow> bool" where
  "datetimelike col = (col \<noteq> [] \<and> length (remdups (offsets col)) \<le> 1)"

definition dt_year_series :: "timestamp list \<Rightarrow> exn + int option list" where
  "dt_year_series col = (if datetimelike col then Inr (map dt_year col) else Inl AttributeError)"

text \<open>
  \<open>pd.to_datetime\<close> belongs to pandas, not to the repository: it is a parameter of the
  model. \<open>to_datetime\<close> is the call with the default \<open>errors='raise'\<close>,
  \<open>to_datetime_coerce\<close> the call with \<open>errors='coerce'\<close>; either may raise.
\<close>

record pandas =
  to_datetime :: "cell \<Rightarrow> exn + timestamp"
  to_datetime_coerce :: "cell \<Rightarrow> exn + timestamp"

section \<open>Date normalization\<close>

text \<open>
  \<open>convert_publish_time\<close> of analysis.py. The body of its \<open>try\<close> block comes first: a
  value of \<open>exn + timestamp\<close>, \<open>Inl\<close> when a library call raises.
\<close>

definition convert_publish_time_try :: "pandas \<Rightarrow> cell \<Rightarrow> exn + timestamp" where
  "convert_publish_time_try pd date_str =
     (if isna date_str then Inr NaT
      else case date_str of
        Str s \<Rightarrow>
          if length s = 7 \<and> CHR ''-'' \<in> set s then to_datetime pd (Str (s @ ''-01''))
          else if length s = 4 then to_datetime pd (Str (s @ ''-01-01''))
          else to_datetime_coerce pd (Str s)
      | _ \<Rightarrow> to_datetime_coerce pd date_str)"

text \<open>The bare \<open>except:\<close> clause returns \<open>pd.NaT\<close> for every exception.\<close>

definition except_NaT :: "exn + timestamp \<Rightarrow> exn + timestamp" where
  "except_NaT r = (case r of Inl e \<Rightarrow> Inr NaT | Inr t \<Rightarrow> Inr t)"

definition convert_publish_time :: "pandas \<Rightarrow> cell \<Rightarrow> exn + timestamp" where
  "convert_publish_time pd date_str = except_NaT (convert_publish_time_try pd date_str)"

text \<open>\<open>convert_date\<close> of app.py: no branch for strings of length 7.\<close>

definition convert_date_try :: "pandas \<Rightarrow> cell \<Rightarrow> exn + timestamp" where
  "convert_date_try pd date_str =
     (if isna date_str then Inr NaT
      else case date_str of
        Str s \<Rightarrow>
          if length s = 4 then to_datetime pd (Str (s @ ''-01-01''))
          else to_datetime_coerce pd (Str s)
      | _ \<Rightarrow> to_datetime_coerce pd date_str)"

definition convert_date :: "pandas \<Rightarrow> cell \<Rightarrow> exn + timestamp" where
  "convert_date pd date_str = except_NaT (convert_date_try pd date_str)"

text \<open>
  \<open>Series.apply(f)\<close> calls \<open>f\<close> on each cell in turn; an exception of \<open>f\<close> ends the
  whole call.
\<close>

fun series_apply :: "('a \<Rightarrow> exn + 'b) \<Rightarrow> 'a list \<Rightarrow> exn + 'b list" where
  "series_apply f [] = Inr []"
| "series_apply f (x # xs) =
     (case f x of
        Inl e \<Rightarrow> Inl e
      | Inr y \<Rightarrow> (case series_apply f xs of Inl e \<Rightarrow> Inl e | Inr ys \<Rightarrow> Inr (y # ys)))"

text \<open>Decimal digits, and the number a string of digits denotes.\<close>

definition is_digit :: "char \<Rightarrow> bool" where
  "is_digit c = (let n = (of_char c :: nat) in 48 \<le> n \<and> n \<le> 57)"

definition digits_value :: "string \<Rightarrow> nat" where
  "digits_value s = foldl (\<lambda>acc c. 10 * acc + (of_char c - 48)) 0 s"

section \<open>What pandas does with an ISO date\<close>

text \<open>
  A calendar date is a year, a month and a day. \<open>date_le\<close> orders dates, \<open>valid_date\<close>
  says that the month and the day exist in the Gregorian calendar.
\<close>

type_synonym date = "int \<times> nat \<times> nat"

definition date_le :: "date \<Rightarrow> date \<Rightarrow> bool" where
  "date_le a b =
     (case a of (y1, m1, d1) \<Rightarrow> case b of (y2, m2, d2) \<Rightarrow>
        y1 < y2 \<or> (y1 = y2 \<and> (m1 < m2 \<or> (m1 = m2 \<and> d1 \<le> d2))))"

definition leap_year :: "int \<Rightarrow> bool" where
  "leap_year y = (y mod 4 = 0 \<and> (y mod 100 \<noteq> 0 \<or> y mod 400 = 0))"

definition days_in_month :: "int \<Rightarrow> nat \<Rightarrow> nat" where
  "days_in_month y m =
     (if m = 2 then (if leap_year y then 29 else 28)
      else if m = 4 \<or> m = 6 \<or> m = 9 \<or> m = 11 then 30 else 31)"

definition valid_date :: "date \<Rightarrow> bool" where
  "valid_date a =
     (case a of (y, m, d) \<Rightarrow> 1 \<le> m \<and> m \<le> 12 \<and> 1 \<le> d \<and> d \<le> days_in_month y m)"

text \<open>
  The date that a string in the ISO 8601 form \<open>YYYY-MM-DD\<close> or \<open>YYYY-MM\<close> writes; the
  second form means the first day of the month.
\<close>

definition iso_date :: "string \<Rightarrow> date option" where
  "iso_date s =
     (if length s = 10 \<and> s ! 4 = CHR ''-'' \<and> s ! 7 = CHR ''-'' \<and>
         list_all is_digit (take 4 s @ take 2 (drop 5 s) @ drop 8 s)
      then Some (int (digits_value (take 4 s)), digits_value (take 2 (drop 5 s)),
                 digits_value (drop 8 s))
      else if length s = 7 \<and> s ! 4 = CHR ''-'' \<and> list_all is_digit (take 4 s @ drop 5 s)
      then Some (int (digits_value (take 4 s)), digits_value (drop 5 s), 1)
      else None)"

text \<open>
  The timestamps of pandas cover a range of dates: \<open>lo\<close> and \<open>hi\<close> are the first
  and the last date whose midnight is a timestamp. With the nanosecond resolution of
  pandas 2, \<open>Timestamp.min\<close> is 1677-09-21 00:12:43 and \<open>Timestamp.max\<close> is
  2262-04-11 23:47:16, so \<open>lo\<close> is 1677-09-22 and \<open>hi\<close> is 2262-04-11.
\<close>

definition in_bounds :: "date \<Rightarrow> date \<Rightarrow> date \<Rightarrow> bool" where
  "in_bounds lo hi a = (date_le lo a \<and> date_le a hi)"

text \<open>
  \<open>pd.to_datetime\<close> on a string that writes a valid date in one of the two ISO forms:
  the timestamp of that date at midnight when the date is in range;
  \<open>OutOfBoundsDatetime\<close> otherwise, which \<open>errors='coerce'\<close> turns into \<open>NaT\<close>. What
  pandas does with any other value stays a parameter (\<open>other\<close>, \<open>other_coerce\<close>).
\<close>

definition iso_to_datetime ::
  "date \<Rightarrow> date \<Rightarrow> (cell \<Rightarrow> exn + timestamp) \<Rightarrow> cell \<Rightarrow> exn + timestamp" where
  "iso_to_datetime lo hi other v =
     (case v of
        Str s \<Rightarrow>
          (case iso_date s of
             Some a \<Rightarrow>
               if valid_date a
               then (if in_bounds lo hi a
                     then Inr (Timestamp (fst a) (fst (snd a)) (snd (snd a)) 0)
                     else Inl OutOfBoundsDatetime)
               else other v
           | None \<Rightarrow> other v)
      | _ \<Rightarrow> other v)"

definition iso_to_datetime_coerce ::
  "date \<Rightarrow> date \<Rightarrow> (cell \<Rightarrow> exn + timestamp) \<Rightarrow> cell \<Rightarrow> exn + timestamp" where
  "iso_to_datetime_coerce lo hi other_coerce v =
     (case v of
        Str s \<Rightarrow>
          (case iso_date s of
             Some a \<Rightarrow>
               if valid_date a
               then (if in_bounds lo hi a
                     then Inr (Timestamp (fst a) (fst (snd a)) (snd (snd a)) 0)
                     else Inr NaT)
               else other_coerce v
           | None \<Rightarrow> other_coerce v)
      | _ \<Rightarrow> other_coerce v)"

definition pandas_iso ::
  "date \<Rightarrow> date \<Rightarrow> (cell \<Rightarrow> exn + timestamp) \<Rightarrow> (cell \<Rightarrow> exn + timestamp) \<Rightarrow> pandas" where
  "pandas_iso lo hi other other_coerce =
     \<lparr>to_datetime = iso_to_datetime lo hi other,
      to_datetime_coerce = iso_to_datetime_coerce lo hi other_coerce\<rparr>"

section \<open>Rows and missing-value defaults\<close>

record 'd row =
  title :: "string option"
  abstract :: "string option"
  journal :: "string option"
  authors :: "string option"
  doi :: "string option"
  publish_time :: 'd

text \<open>\<open>Series.fillna(v)\<close> on one cell.\<close>

definition fillna :: "'a \<Rightarrow> 'a option \<Rightarrow> 'a option" where
  "fillna v c = (case c of None \<Rightarrow> Some v | Some x \<Rightarrow> Some x)"

text \<open>
  Lines 58 to 62 of analysis.py and 15 to 17 of app.py, on one row: the three columns
  are replaced by their filled versions.
\<close>

definition fill_missing_row :: "cell row \<Rightarrow> cell row" where
  "fill_missing_row r =
     r\<lparr>abstract := fillna '''' (abstract r),
       title := fillna ''Unknown Title'' (title r),
       journal := fillna ''Unknown Journal'' (journal r)\<rparr>"

definition fill_missing :: "cell row list \<Rightarrow> cell row list" where
  "fill_missing df = map fill_missing_row df"

text \<open>
  The frame after date conversion (app.py) has the parsed \<open>publish_time\<close> and the
  derived column \<open>publication_year\<close>; the cleaned frame of analysis.py has the columns
  \<open>abstract_word_count\<close> and \<open>title_word_count\<close> as well.
\<close>

record dated_row = "timestamp row" +
  publication_year :: "int option"

record clean_row = dated_row +
  abstract_word_count :: nat
  title_word_count :: nat

section \<open>Characters and text\<close>

text \<open>
  Python's character classes on the code points below 256: \<open>\w\<close> of \<open>re\<close> is
  \<open>str.isalnum\<close> or the underscore, \<open>\s\<close> and \<open>str.split()\<close> use \<open>str.isspace\<close>,
  \<open>str.lower\<close> maps the upper-case letters to their lower-case ones.
\<close>

definition is_word :: "char \<Rightarrow> bool" where
  "is_word c =
     (let n = (of_char c :: nat)
      in (48 \<le> n \<and> n \<le> 57) \<or> (65 \<le> n \<and> n \<le> 90) \<or> n = 95 \<or> (97 \<le> n \<and> n \<le> 122) \<or>
         n = 170 \<or> n = 178 \<or> n = 179 \<or> n = 181 \<or> n = 185 \<or> n = 186 \<or>
         (188 \<le> n \<and> n \<le> 190) \<or> (192 \<le> n \<and> n \<le> 214) \<or> (216 \<le> n \<and> n \<le> 246) \<or>
         248 \<le> n)"

definition is_space :: "char \<Rightarrow> bool" where
  "is_space c =
     (let n = (of_char c :: nat)
      in (9 \<le> n \<and> n \<le> 13) \<or> (28 \<le> n \<and> n \<le> 32) \<or> n = 133 \<or> n = 160)"

definition is_az :: "char \<Rightarrow> bool" where
  "is_az c = (let n = (of_char c :: nat) in 97 \<le> n \<and> n \<le> 122)"

definition lower_char :: "char \<Rightarrow> char" where
  "lower_char c =
     (let n = (of_char c :: nat)
      in if (65 \<le> n \<and> n \<le> 90) \<or> (192 \<le> n \<and> n \<le> 214) \<or> (216 \<le> n \<and> n \<le> 222)
         then char_of (n + 32) else c)"

definition lower :: "string \<Rightarrow> string" where
  "lower s = map lower_char s"

text \<open>\<open>sep.join(xs)\<close>.\<close>

fun join :: "string \<Rightarrow> string list \<Rightarrow> string" where
  "join sep [] = []"
| "join sep [x] = x"
| "join sep (x # y # ys) = x @ sep @ join sep (y # ys)"

text \<open>
  \<open>str.split()\<close> with no argument: the maximal runs of characters that are not
  whitespace. \<open>cur\<close> is the run being read.
\<close>

fun split_from :: "string \<Rightarrow> string \<Rightarrow> string list" where
  "split_from cur [] = (if cur = [] then [] else [cur])"
| "split_from cur (c # cs) =
     (if is_space c then (if cur = [] then split_from [] cs else cur # split_from [] cs)
      else split_from (cur @ [c]) cs)"

definition split :: "string \<Rightarrow> string list" where
  "split s = split_from [] s"

text \<open>\<open>clean_text\<close> of analysis.py: \<open>re.sub(r'[^\w\s]', '', str(text))\<close>, then \<open>lower\<close>.\<close>

definition clean_text :: "string \<Rightarrow> string" where
  "clean_text text = lower (filter (\<lambda>c. is_word c \<or> is_space c) text)"

text \<open>
  \<open>re.findall(r'\b[a-z]{3,}\b', s)\<close> of app.py, scanning left to right; \<open>prev\<close> tells
  whether the character before the position is a word character. A match starts at a
  word boundary on a letter \<open>a\<close> to \<open>z\<close>; the greedy run of such letters must have
  three of them or more and end at a word boundary (a shorter prefix of the run ends
  between two letters, which is no boundary). After a match the scan goes on behind it,
  otherwise at the next position.
\<close>

function findall_words_from :: "bool \<Rightarrow> string \<Rightarrow> string list" where
  "findall_words_from prev [] = []"
| "findall_words_from prev (c # cs) =
     (let run = takeWhile is_az (c # cs); rest = dropWhile is_az (c # cs)
      in if \<not> prev \<and> is_az c \<and> 3 \<le> length run \<and> (case rest of [] \<Rightarrow> True | d # ds \<Rightarrow> \<not> is_word d)
         then run # findall_words_from True rest
         else findall_words_from (is_word c) cs)"
  by pat_completeness auto
termination
proof (relation "measure (\<lambda>(prev, s). length s)")
  show "wf (measure (\<lambda>(prev, s). length s))" by simp
next
  fix prev :: bool and c :: char and cs run rest
  assume r: "rest = dropWhile is_az (c # cs)"
    and m: "\<not> prev \<and> is_az c \<and> 3 \<le> length run \<and> (case rest of [] \<Rightarrow> True | d # ds \<Rightarrow> \<not> is_word d)"
  from m have "is_az c" by simp
  with r have "rest = dropWhile is_az cs" by simp
  then have "length rest \<le> length cs" by (simp add: length_dropWhile_le)
  then show "((True, rest), (prev, c # cs)) \<in> measure (\<lambda>(prev, s). length s)" by simp
next
  fix prev :: bool and c :: char and cs run rest
  show "((is_word c, cs), (prev, c # cs)) \<in> measure (\<lambda>(prev, s). length s)" by simp
qed

declare findall_words_from.simps [simp del]

definition findall_words :: "string \<Rightarrow> string list" where
  "findall_words s = findall_words_from False s"

section \<open>Counting\<close>

text \<open>
  A table of counts in the order in which the keys were first met, as a \<open>Counter\<close>
  (an insertion-ordered dict) holds it. \<open>bump\<close> is \<open>counts[x] += 1\<close>.
\<close>

fun bump :: "'a \<Rightarrow> ('a \<times> nat) list \<Rightarrow> ('a \<times> nat) list" where
  "bump x [] = [(x, 1)]"
| "bump x ((k, c) # t) = (if k = x then (k, Suc c) # t else (k, c) # bump x t)"

definition counter :: "'a list \<Rightarrow> ('a \<times> nat) list" where
  "counter xs = foldl (\<lambda>t x. bump x t) [] xs"

text \<open>
  Sorting a table by count, largest first, entries of equal count in the order they
  had: \<open>sorted(items, key=itemgetter(1), reverse=True)\<close>.
\<close>

definition sort_desc :: "('a \<times> nat) list \<Rightarrow> ('a \<times> nat) list" where
  "sort_desc t = sort_key (\<lambda>p. - int (snd p)) t"

text \<open>\<open>Counter(xs).most_common(n)\<close>.\<close>

definition most_common :: "nat \<Rightarrow> ('a \<times> nat) list \<Rightarrow> ('a \<times> nat) list" where
  "most_common n t = take n (sort_desc t)"

text \<open>
  \<open>Series.value_counts()\<close> is pandas code. It drops the missing values, counts each
  remaining value in the order of first appearance and sorts the table descending by
  count; rows of equal count keep the order of first appearance, which is the
  tie-break the specification states.
\<close>

definition dropna :: "'a option list \<Rightarrow> 'a list" where
  "dropna col = concat (map (\<lambda>v. case v of None \<Rightarrow> [] | Some x \<Rightarrow> [x]) col)"

definition value_counts :: "'a option list \<Rightarrow> ('a \<times> nat) list" where
  "value_counts col = sort_desc (counter (dropna col))"

text \<open>\<open>Series.sort_index()\<close> on a table of counts keyed by year.\<close>

definition sort_index :: "(int \<times> nat) list \<Rightarrow> (int \<times> nat) list" where
  "sort_index t = sort_key fst t"

text \<open>\<open>Series.head(n)\<close>.\<close>

definition head :: "nat \<Rightarrow> 'a list \<Rightarrow> 'a list" where
  "head n xs = take n xs"

section \<open>Cleaning and filtering\<close>

text \<open>\<open>str(x)\<close> of a text cell: the string itself, \<open>nan\<close> for a missing value.\<close>

definition astype_str :: "string option \<Rightarrow> string" where
  "astype_str c = (case c of None \<Rightarrow> ''nan'' | Some s \<Rightarrow> s)"

text \<open>\<open>len(str(x).split())\<close>.\<close>

definition word_count :: "string option \<Rightarrow> nat" where
  "word_count c = length (split (astype_str c))"

text \<open>
  Lines 84 to 93 of analysis.py on one row, given its converted date and its cell of
  the year column.
\<close>

definition derive_row :: "timestamp \<Rightarrow> int option \<Rightarrow> cell row \<Rightarrow> clean_row" where
  "derive_row t y r =
     \<lparr>title = title r, abstract = abstract r, journal = journal r, authors = authors r,
      doi = doi r, publish_time = t, publication_year = y,
      abstract_word_count = word_count (abstract r),
      title_word_count = word_count (title r)\<rparr>"

text \<open>
  Lines 50 to 93 of analysis.py: the frame before the invalid rows are removed. Line 87
  raises when the converted column is not a datetime column.
\<close>

definition clean :: "pandas \<Rightarrow> cell row list \<Rightarrow> exn + clean_row list" where
  "clean pd df =
     (let df1 = fill_missing df
      in case series_apply (convert_publish_time pd) (map publish_time df1) of
           Inl e \<Rightarrow> Inl e
         | Inr ts \<Rightarrow>
             (case dt_year_series ts of
                Inl e \<Rightarrow> Inl e
              | Inr ys \<Rightarrow> Inr (map (\<lambda>(t, y, r). derive_row t y r) (zip ts (zip ys df1)))))"

text \<open>
  Element-wise comparisons of a column with a scalar. A missing value is different
  from every string, and every ordering comparison with NaN is false.
\<close>

definition ne_str :: "string option \<Rightarrow> string \<Rightarrow> bool" where
  "ne_str c s = (c \<noteq> Some s)"

definition ge_num :: "int option \<Rightarrow> int \<Rightarrow> bool" where
  "ge_num c n = (case c of None \<Rightarrow> False | Some y \<Rightarrow> n \<le> y)"

definition le_num :: "int option \<Rightarrow> int \<Rightarrow> bool" where
  "le_num c n = (case c of None \<Rightarrow> False | Some y \<Rightarrow> y \<le> n)"

text \<open>\<open>df[mask]\<close>: the rows at which the mask is true.\<close>

definition boolean_index :: "'a list \<Rightarrow> bool list \<Rightarrow> 'a list" where
  "boolean_index df flags = map fst (filter snd (zip df flags))"

text \<open>\<open>mask1 & mask2\<close>.\<close>

definition and_mask :: "bool list \<Rightarrow> bool list \<Rightarrow> bool list" where
  "and_mask m1 m2 = map (\<lambda>(a, b). a \<and> b) (zip m1 m2)"

text \<open>Lines 100 and 101 of analysis.py.\<close>

definition remove_invalid :: "clean_row list \<Rightarrow> clean_row list" where
  "remove_invalid df =
     (let df1 = boolean_index df (map (\<lambda>r. ne_str (title r) ''Unknown Title'') df)
      in boolean_index df1 (map (\<lambda>r. ge_num (publication_year r) 1900) df1))"

text \<open>The analysis set \<open>df_clean\<close> of analysis.py, from the raw frame.\<close>

definition df_clean :: "pandas \<Rightarrow> cell row list \<Rightarrow> exn + clean_row list" where
  "df_clean pd df = (case clean pd df of Inl e \<Rightarrow> Inl e | Inr d \<Rightarrow> Inr (remove_invalid d))"

text \<open>
  \<open>load_data\<close> of app.py, from the frame that \<open>read_csv\<close> returned. Line 32 raises when
  the converted column is not a datetime column.
\<close>

definition date_row :: "timestamp \<Rightarrow> int option \<Rightarrow> cell row \<Rightarrow> dated_row" where
  "date_row t y r =
     \<lparr>title = title r, abstract = abstract r, journal = journal r, authors = authors r,
      doi = doi r, publish_time = t, publication_year = y\<rparr>"

definition load_data :: "pandas \<Rightarrow> cell row list \<Rightarrow> exn + dated_row list" where
  "load_data pd df =
     (let df1 = fill_missing df
      in case series_apply (convert_date pd) (map publish_time df1) of
           Inl e \<Rightarrow> Inl e
         | Inr ts \<Rightarrow>
             (case dt_year_series ts of
                Inl e \<Rightarrow> Inl e
              | Inr ys \<Rightarrow>
                  (let df2 = map (\<lambda>(t, y, r). date_row t y r) (zip ts (zip ys df1))
                   in Inr (boolean_index df2
                             (map (\<lambda>r. ge_num (publication_year r) 2010) df2)))))"

text \<open>
  \<open>Series.min()\<close> and \<open>Series.max()\<close> skip the missing values and are NaN when nothing
  is left; \<open>int(nan)\<close> raises \<open>ValueError\<close> (lines 52 and 53 of app.py).
\<close>

definition series_min :: "int option list \<Rightarrow> int option" where
  "series_min col = (case dropna col of [] \<Rightarrow> None | y # ys \<Rightarrow> Some (foldl min y ys))"

definition series_max :: "int option list \<Rightarrow> int option" where
  "series_max col = (case dropna col of [] \<Rightarrow> None | y # ys \<Rightarrow> Some (foldl max y ys))"

definition min_year :: "dated_row list \<Rightarrow> exn + int" where
  "min_year df =
     (case series_min (map publication_year df) of None \<Rightarrow> Inl ValueError | Some y \<Rightarrow> Inr y)"

definition max_year :: "dated_row list \<Rightarrow> exn + int" where
  "max_year df =
     (case series_max (map publication_year df) of None \<Rightarrow> Inl ValueError | Some y \<Rightarrow> Inr y)"

text \<open>Lines 62 and 63 of app.py: the year-range filter.\<close>

definition filtered_df :: "int \<times> int \<Rightarrow> dated_row list \<Rightarrow> dated_row list" where
  "filtered_df year_range df =
     boolean_index df
       (and_mask (map (\<lambda>r. ge_num (publication_year r) (fst year_range)) df)
                 (map (\<lambda>r. le_num (publication_year r) (snd year_range)) df))"

section \<open>Aggregates\<close>

text \<open>Line 114 of analysis.py and line 83 of app.py, on the column of years.\<close>

definition yearly_counts :: "int option list \<Rightarrow> (int \<times> nat) list" where
  "yearly_counts years = sort_index (value_counts years)"

text \<open>
  Lines 119 and 120 of analysis.py, on the journal column: the first \<open>n\<close> rows of the
  sorted counts, then without the row of \<open>Unknown Journal\<close>. The script has \<open>n = 15\<close>.
\<close>

definition top_journals_head :: "nat \<Rightarrow> string option list \<Rightarrow> (string \<times> nat) list" where
  "top_journals_head n journals =
     filter (\<lambda>p. fst p \<noteq> ''Unknown Journal'') (head n (value_counts journals))"

definition top_journals :: "string option list \<Rightarrow> (string \<times> nat) list" where
  "top_journals journals = top_journals_head 15 journals"

text \<open>Line 96 of app.py: the dashboard's table, \<open>top_n\<close> from the slider.\<close>

definition app_top_journals :: "nat \<Rightarrow> string option list \<Rightarrow> (string \<times> nat) list" where
  "app_top_journals top_n journals = head top_n (value_counts journals)"

text \<open>Lines 130 to 138 of analysis.py, on the title column.\<close>

definition stop_words :: "string list" where
  "stop_words =
     [''the'', ''a'', ''an'', ''and'', ''or'', ''but'', ''in'', ''on'', ''at'', ''to'', ''for'',
      ''of'', ''with'', ''by'', ''is'', ''are'', ''was'', ''were'', ''be'', ''been'', ''being'',
      ''have'', ''has'', ''had'', ''do'', ''does'', ''did'', ''will'', ''would'', ''could'',
      ''should'', ''may'', ''might'', ''must'', ''can'', ''from'', ''as'', ''that'', ''this'',
      ''these'', ''those'', ''which'', ''what'', ''when'', ''where'', ''who'', ''whom'', ''how'',
      ''why'', ''via'', ''using'', ''based'', ''study'', ''review'', ''analysis'', ''covid'',
      ''19'', ''sars'', ''cov'', ''2'', ''coronavirus'', ''pandemic'']"

definition filtered_words :: "string option list \<Rightarrow> string list" where
  "filtered_words titles =
     (let all_titles = join '' '' (map astype_str titles);
          cleaned_titles = clean_text all_titles;
          words = split cleaned_titles
      in filter (\<lambda>word. word \<notin> set stop_words \<and> 2 < length word) words)"

definition word_freq :: "string option list \<Rightarrow> (string \<times> nat) list" where
  "word_freq titles = most_common 20 (counter (filtered_words titles))"

text \<open>Lines 108 to 113 of app.py, on the title column.\<close>

definition app_stop_words :: "string list" where
  "app_stop_words =
     [''the'', ''and'', ''for'', ''with'', ''using'', ''based'', ''study'', ''review'',
      ''analysis'', ''covid'', ''19'', ''sars'', ''cov'', ''2'']"

definition app_filtered_words :: "string option list \<Rightarrow> string list" where
  "app_filtered_words titles =
     (let all_titles = join '' '' (map astype_str titles);
          words = findall_words (lower all_titles)
      in filter (\<lambda>word. word \<notin> set app_stop_words) words)"

definition app_word_freq :: "string option list \<Rightarrow> (string \<times> nat) list" where
  "app_word_freq titles = most_common 15 (counter (app_filtered_words titles))"

text \<open>
  Lines 114 to 138 of analysis.py as the script runs them: each statement assigns a
  global variable, read by the statements after it. \<open>env\<close> holds the globals;
  \<open>words\<close> is assigned again by line 161, after the tables are computed.
\<close>

record env =
  g_df_clean :: "clean_row list"
  g_yearly_counts :: "(int \<times> nat) list"
  g_recent_years :: "(int \<times> nat) list"
  g_top_journals :: "(string \<times> nat) list"
  g_all_titles :: string
  g_cleaned_titles :: string
  g_words :: "string list"
  g_filtered_words :: "string list"
  g_word_freq :: "(string \<times> nat) list"

definition analyze :: "env \<Rightarrow> env" where
  "analyze e =
     (let e = e\<lparr>g_yearly_counts :=
                 sort_index (value_counts (map publication_year (g_df_clean e)))\<rparr>;
          e = e\<lparr>g_recent_years := filter (\<lambda>p. 2010 \<le> fst p) (g_yearly_counts e)\<rparr>;
          e = e\<lparr>g_top_journals := head 15 (value_counts (map journal (g_df_clean e)))\<rparr>;
          e = e\<lparr>g_top_journals :=
                 filter (\<lambda>p. fst p \<noteq> ''Unknown Journal'') (g_top_journals e)\<rparr>;
          e = e\<lparr>g_all_titles := join '' '' (map astype_str (map title (g_df_clean e)))\<rparr>;
          e = e\<lparr>g_cleaned_titles := clean_text (g_all_titles e)\<rparr>;
          e = e\<lparr>g_words := split (g_cleaned_titles e)\<rparr>;
          e = e\<lparr>g_filtered_words :=
                 filter (\<lambda>word. word \<notin> set stop_words \<and> 2 < length word) (g_words e)\<rparr>;
          e = e\<lparr>g_word_freq := most_common 20 (counter (g_filtered_words e))\<rparr>
      in e)"

section \<open>The specification's wording\<close>

text \<open>
  The rows that the specification says the post-normalization filter drops: the title
  is the sentinel, or the year is defined and below 1900.
\<close>

definition spec_dropped :: "clean_row \<Rightarrow> bool" where
  "spec_dropped r =
     (title r = Some ''Unknown Title'' \<or>
      (case publication_year r of None \<Rightarrow> False | Some y \<Rightarrow> y < 1900))"

text \<open>
  The top-\<open>n\<close> journals as the specification words them: the row of \<open>Unknown Journal\<close>
  is left out first, the rest is sorted descending by count and cut to \<open>n\<close> rows.
\<close>

definition spec_top_journals :: "nat \<Rightarrow> string option list \<Rightarrow> (string \<times> nat) list" where
  "spec_top_journals n journals =
     take n (sort_desc (filter (\<lambda>p. fst p \<noteq> ''Unknown Journal'') (counter (dropna journals))))"

section \<open>Sample libraries\<close>

text \<open>
  Two instances of the library parameter, for evaluating the model on concrete input:
  one whose calls always raise, and pandas with nanosecond timestamps, which reads the
  ISO dates from 1677-09-22 to 2262-04-11; what it does with a value that is not an ISO
  date is fixed here as a failure to parse.
\<close>

definition raising_pandas :: pandas where
  "raising_pandas =
     \<lparr>to_datetime = (\<lambda>v. Inl ParserError), to_datetime_coerce = (\<lambda>v. Inl TypeError)\<rparr>"

definition pandas_ns :: pandas where
  "pandas_ns =
     pandas_iso (1677, 9, 22) (2262, 4, 11) (\<lambda>v. Inl ParserError) (\<lambda>v. Inr NaT)"

section \<open>Sample data\<close>

text \<open>A row of the dashboard's frame with a title and a year.\<close>

definition sample_paper :: "string \<Rightarrow> int option \<Rightarrow> dated_row" where
  "sample_paper t y =
     \<lparr>title = Some t, abstract = Some '''', journal = Some ''Unknown Journal'', authors = None,
      doi = None, publish_time = (case y of None \<Rightarrow> NaT | Some v \<Rightarrow> Timestamp v 1 1 0),
      publication_year = y\<rparr>"

text \<open>
  The journal column of the specification's scenario: \<open>Nature\<close> five times,
  \<open>Unknown Journal\<close> ten times, \<open>Cell\<close> three times.
\<close>

definition nature_example :: "string option list" where
  "nature_example =
     replicate 5 (Some ''Nature'') @ replicate 10 (Some ''Unknown Journal'') @
     replicate 3 (Some ''Cell'')"

text \<open>
  A journal column with sixteen journals, no two of the same count: \<open>Unknown Journal\<close>
  sixteen times, then fifteen named journals from fifteen rows down to one.
\<close>

definition ranked_example :: "string option list" where
  "ranked_example =
     concat (map (\<lambda>(j, k). replicate k (Some j))
       [(''Unknown Journal'', 16), (''a'', 15), (''b'', 14), (''c'', 13), (''d'', 12),
        (''e'', 11), (''f'', 10), (''g'', 9), (''h'', 8), (''i'', 7), (''j'', 6), (''k'', 5),
        (''l'', 4), (''m'', 3), (''n'', 2), (''o'', 1)])"

text \<open>
  A cleaned row with a title, a journal and a year, and a state of the script's globals
  over three such rows, with given left-over values of \<open>words\<close>, \<open>filtered_words\<close>
  and \<open>top_journals\<close>.
\<close>

definition sample_clean_row :: "string \<Rightarrow> string \<Rightarrow> int \<Rightarrow> clean_row" where
  "sample_clean_row t j y =
     \<lparr>title = Some t, abstract = Some '''', journal = Some j, authors = None, doi = None,
      publish_time = Timestamp y 1 1 0, publication_year = Some y,
      abstract_word_count = 0, title_word_count = length (split t)\<rparr>"

definition sample_env :: "string list \<Rightarrow> (string \<times> nat) list \<Rightarrow> env" where
  "sample_env ws tj =
     \<lparr>g_df_clean =
        [sample_clean_row ''COVID-19 Analysis of Lung Disease'' ''Nature'' 2020,
         sample_clean_row ''Lung imaging'' ''Unknown Journal'' 2021,
         sample_clean_row ''Imaging review'' ''Nature'' 2020],
      g_yearly_counts = [], g_recent_years = [], g_top_journals = tj, g_all_titles = [],
      g_cleaned_titles = [], g_words = ws, g_filtered_words = ws, g_word_freq = []\<rparr>"

section \<open>Date normalization never raises\<close>

lemma except_NaT_Inr: "\<exists>t. except_NaT r = Inr t"
  by (cases r) (simp_all add: except_NaT_def)

lemma series_apply_total:
  "(\<And>x. \<exists>y. f x = Inr y) \<Longrightarrow> \<exists>ys. series_apply f col = Inr ys \<and> length ys = length col"
proof (induction col)
  case Nil
  then show ?case by simp
next
  case (Cons x col)
  from Cons.prems obtain y where y: "f x = Inr y" by blast
  from Cons.IH Cons.prems obtain ys
    where ys: "series_apply f col = Inr ys" "length ys = length col"
    by blast
  show ?case by (simp add: y ys)
qed

text \<open>
  C6. Whatever the library does, \<open>convert_publish_time\<close> and \<open>convert_date\<close> return a
  value for every cell and never raise; a missing cell gives \<open>NaT\<close>; a cell at which
  the body of the \<open>try\<close> block raises gives \<open>NaT\<close>; and applying them to a whole column
  returns a column of the same length instead of ending with an exception.
\<close>

theorem convert_publish_time_never_raises:
  "(\<exists>t. convert_publish_time pd v = Inr t) \<and>
   (\<exists>t. convert_date pd v = Inr t) \<and>
   convert_publish_time pd NaN = Inr NaT \<and>
   convert_date pd NaN = Inr NaT \<and>
   (convert_publish_time_try pd v = Inl e \<longrightarrow> convert_publish_time pd v = Inr NaT) \<and>
   (convert_date_try pd v = Inl e \<longrightarrow> convert_date pd v = Inr NaT) \<and>
   (\<exists>ts. series_apply (convert_publish_time pd) col = Inr ts \<and> length ts = length col) \<and>
   (\<exists>ts. series_apply (convert_date pd) col = Inr ts \<and> length ts = length col)"
proof -
  have a: "\<And>x. \<exists>t. convert_publish_time pd x = Inr t"
    by (simp add: convert_publish_time_def except_NaT_Inr)
  have b: "\<And>x. \<exists>t. convert_date pd x = Inr t"
    by (simp add: convert_date_def except_NaT_Inr)
  have c: "convert_publish_time pd NaN = Inr NaT"
    by (simp add: convert_publish_time_def convert_publish_time_try_def isna_def except_NaT_def)
  have d: "convert_date pd NaN = Inr NaT"
    by (simp add: convert_date_def convert_date_try_def isna_def except_NaT_def)
  have e: "convert_publish_time_try pd v = Inl e \<longrightarrow> convert_publish_time pd v = Inr NaT"
    by (simp add: convert_publish_time_def except_NaT_def)
  have f: "convert_date_try pd v = Inl e \<longrightarrow> convert_date pd v = Inr NaT"
    by (simp add: convert_date_def except_NaT_def)
  from a b c d e f series_apply_total [of "convert_publish_time pd" col, OF a]
    series_apply_total [of "convert_date pd" col, OF b]
  show ?thesis by blast
qed

theorem convert_publish_time_never_raises_witness:
  "convert_publish_time_try raising_pandas (Str ''20x0'') = Inl ParserError \<and>
   convert_publish_time raising_pandas (Str ''20x0'') = Inr NaT \<and>
   convert_date_try raising_pandas (Num 5) = Inl TypeError \<and>
   convert_date raising_pandas (Num 5) = Inr NaT \<and>
   series_apply (convert_publish_time raising_pandas) [NaN, Str ''20x0'', Num 5] =
     Inr [NaT, NaT, NaT] \<and>
   series_apply (convert_publish_time pandas_ns)
       [Str ''2020-05-17'', Str ''0001'', Str ''2020-05'', Str ''2020''] =
     Inr [Timestamp 2020 5 17 0, NaT, Timestamp 2020 5 1 0, Timestamp 2020 1 1 0]"
proof -
  have 1: "series_apply (convert_publish_time pandas_ns)
       [Str ''2020-05-17'', Str ''0001'', Str ''2020-05'', Str ''2020''] =
     Inr [Timestamp 2020 5 17 0, NaT, Timestamp 2020 5 1 0, Timestamp 2020 1 1 0]"
    by code_simp
  from convert_publish_time_never_raises
    [of raising_pandas "Str ''20x0''" ParserError "[NaN, Str ''20x0'', Num 5]"] 1
  show ?thesis
    by (simp add: convert_publish_time_def convert_publish_time_try_def convert_date_def
        convert_date_try_def isna_def except_NaT_def raising_pandas_def)
qed

section \<open>Year-only and year-month dates\<close>

lemma digits_value_01: "digits_value ''01'' = 1"
  by (simp add: digits_value_def)

lemma valid_first_day: "1 \<le> m \<Longrightarrow> m \<le> 12 \<Longrightarrow> valid_date (y, m, 1)"
  by (simp add: valid_date_def days_in_month_def)

lemma iso_date_year_only:
  assumes "length s = 4" and "\<forall>c \<in> set s. is_digit c"
  shows "iso_date (s @ ''-01-01'') = Some (int (digits_value s), 1, 1)"
proof -
  let ?t = "s @ ''-01-01''"
  have a: "take 4 ?t = s" using assms(1) by simp
  have b: "take 2 (drop 5 ?t) = ''01''" using assms(1) by simp
  have c: "drop 8 ?t = ''01''" using assms(1) by simp
  have d: "?t ! 4 = CHR ''-''" "?t ! 7 = CHR ''-''" using assms(1) by (simp_all add: nth_append)
  have e: "length ?t = 10" using assms(1) by simp
  have f: "list_all is_digit (s @ ''01'' @ ''01'')"
    using assms(2) by (simp add: list_all_iff is_digit_def)
  show ?thesis
    unfolding iso_date_def a b c using d e f by (simp add: digits_value_01)
qed

lemma iso_date_year_month_day:
  assumes "length y = 4" and "length m = 2" and "\<forall>c \<in> set (y @ m). is_digit c"
  shows "iso_date ((y @ ''-'' @ m) @ ''-01'') = Some (int (digits_value y), digits_value m, 1)"
proof -
  let ?t = "(y @ ''-'' @ m) @ ''-01''"
  have a: "take 4 ?t = y" using assms(1) by simp
  have b: "take 2 (drop 5 ?t) = m" using assms(1,2) by simp
  have c: "drop 8 ?t = ''01''" using assms(1,2) by simp
  have d: "?t ! 4 = CHR ''-''" "?t ! 7 = CHR ''-''"
    using assms(1,2) by (simp_all add: nth_append)
  have e: "length ?t = 10" using assms(1,2) by simp
  have f: "list_all is_digit (y @ m @ ''01'')"
    using assms(3) by (simp add: list_all_iff is_digit_def)
  show ?thesis
    unfolding iso_date_def a b c using d e f by (simp add: digits_value_01)
qed

lemma iso_date_year_month:
  assumes "length y = 4" and "length m = 2" and "\<forall>c \<in> set (y @ m). is_digit c"
  shows "iso_date (y @ ''-'' @ m) = Some (int (digits_value y), digits_value m, 1)"
proof -
  let ?t = "y @ ''-'' @ m"
  have a: "take 4 ?t = y" using assms(1) by simp
  have b: "drop 5 ?t = m" using assms(1) by simp
  have d: "?t ! 4 = CHR ''-''" using assms(1) by (simp add: nth_append)
  have e: "length ?t = 7" using assms(1,2) by simp
  have f: "list_all is_digit (y @ m)" using assms(3) by (simp add: list_all_iff)
  show ?thesis
    unfolding iso_date_def a b using d e f by simp
qed

lemma in_bounds_ns_first_of_year:
  "in_bounds (1677, 9, 22) (2262, 4, 11) (y, 1, 1) = (1678 \<le> y \<and> y \<le> 2262)"
  by (auto simp: in_bounds_def date_le_def)

text \<open>
  C4, as the code has it. For a string \<open>s\<close> of four digits, \<open>convert_publish_time\<close> and
  \<open>convert_date\<close> hand \<open>s + '-01-01'\<close> to pandas. The result is January 1 of the year
  \<open>s\<close> exactly when that date is within the range of the timestamps of pandas;
  otherwise pandas raises, the \<open>except\<close> clause returns \<open>NaT\<close>, and the publication
  year is undefined. With nanosecond timestamps the years 1678 to 2262 give January 1
  and every other year of four digits gives \<open>NaT\<close>.
\<close>

theorem year_only_date:
  assumes "length s = 4" and "\<forall>c \<in> set s. is_digit c"
  shows "convert_publish_time (pandas_iso lo hi other other_coerce) (Str s) =
           Inr (if in_bounds lo hi (int (digits_value s), 1, 1)
                then Timestamp (int (digits_value s)) 1 1 0 else NaT) \<and>
         convert_date (pandas_iso lo hi other other_coerce) (Str s) =
           Inr (if in_bounds lo hi (int (digits_value s), 1, 1)
                then Timestamp (int (digits_value s)) 1 1 0 else NaT) \<and>
         convert_publish_time pandas_ns (Str s) =
           Inr (if 1678 \<le> int (digits_value s) \<and> int (digits_value s) \<le> 2262
                then Timestamp (int (digits_value s)) 1 1 0 else NaT) \<and>
         convert_date pandas_ns (Str s) =
           Inr (if 1678 \<le> int (digits_value s) \<and> int (digits_value s) \<le> 2262
                then Timestamp (int (digits_value s)) 1 1 0 else NaT)"
proof -
  have v: "valid_date (int (digits_value s), 1, 1)"
    by (simp add: valid_date_def days_in_month_def)
  have td: "to_datetime (pandas_iso l h f g) (Str (s @ ''-01-01'')) =
      (if in_bounds l h (int (digits_value s), 1, 1)
       then Inr (Timestamp (int (digits_value s)) 1 1 0) else Inl OutOfBoundsDatetime)"
    for l h f g
    by (simp only: pandas_iso_def pandas.simps iso_to_datetime_def cell.case option.case
        iso_date_year_only [OF assms] v if_True fst_conv snd_conv)
  have a: "convert_publish_time (pandas_iso l h f g) (Str s) =
      Inr (if in_bounds l h (int (digits_value s), 1, 1)
           then Timestamp (int (digits_value s)) 1 1 0 else NaT)" for l h f g
    using assms(1)
    by (simp add: convert_publish_time_def convert_publish_time_try_def isna_def
        except_NaT_def td)
  have b: "convert_date (pandas_iso l h f g) (Str s) =
      Inr (if in_bounds l h (int (digits_value s), 1, 1)
           then Timestamp (int (digits_value s)) 1 1 0 else NaT)" for l h f g
    using assms(1)
    by (simp add: convert_date_def convert_date_try_def isna_def except_NaT_def td)
  have c: "convert_publish_time pandas_ns (Str s) =
      Inr (if 1678 \<le> int (digits_value s) \<and> int (digits_value s) \<le> 2262
           then Timestamp (int (digits_value s)) 1 1 0 else NaT)"
    unfolding pandas_ns_def a in_bounds_ns_first_of_year ..
  have d: "convert_date pandas_ns (Str s) =
      Inr (if 1678 \<le> int (digits_value s) \<and> int (digits_value s) \<le> 2262
           then Timestamp (int (digits_value s)) 1 1 0 else NaT)"
    unfolding pandas_ns_def b in_bounds_ns_first_of_year ..
  from a b c d show ?thesis by blast
qed

theorem year_only_date_witness:
  "convert_publish_time pandas_ns (Str ''2020'') = Inr (Timestamp 2020 1 1 0) \<and>
   convert_date pandas_ns (Str ''2020'') = Inr (Timestamp 2020 1 1 0) \<and>
   convert_publish_time pandas_ns (Str ''1678'') = Inr (Timestamp 1678 1 1 0) \<and>
   convert_publish_time pandas_ns (Str ''2262'') = Inr (Timestamp 2262 1 1 0)"
proof -
  have 1: "length ''2020'' = 4" "length ''1678'' = 4" "length ''2262'' = 4" by simp_all
  have 2: "\<forall>c \<in> set ''2020''. is_digit c" "\<forall>c \<in> set ''1678''. is_digit c"
    "\<forall>c \<in> set ''2262''. is_digit c"
    by (simp_all add: is_digit_def)
  have 3: "digits_value ''2020'' = 2020" "digits_value ''1678'' = 1678"
    "digits_value ''2262'' = 2262"
    by (simp_all add: digits_value_def)
  from year_only_date [OF 1(1) 2(1)] year_only_date [OF 1(2) 2(2)]
    year_only_date [OF 1(3) 2(3)]
  show ?thesis by (simp add: 3)
qed

text \<open>
  The claim as the specification states it fails: the strings \<open>0001\<close>, \<open>1677\<close>, \<open>2263\<close>
  and \<open>9999\<close> have four digits, and with nanosecond timestamps date normalization
  gives \<open>NaT\<close> for each, not January 1 of the year; the publication year is undefined.
\<close>

theorem year_only_date_counterexample:
  "convert_publish_time pandas_ns (Str ''0001'') = Inr NaT \<and>
   convert_date pandas_ns (Str ''0001'') = Inr NaT \<and>
   convert_publish_time pandas_ns (Str ''1677'') = Inr NaT \<and>
   convert_publish_time pandas_ns (Str ''2263'') = Inr NaT \<and>
   convert_publish_time pandas_ns (Str ''9999'') = Inr NaT \<and>
   dt_year_series [NaT] = Inr [None]"
  by code_simp

text \<open>
  C5, as the code has it. For a string of the form \<open>YYYY-MM\<close> (four digits, a hyphen,
  two digits that number a month from 01 to 12), \<open>convert_publish_time\<close> hands the
  string with \<open>-01\<close> appended to pandas and \<open>convert_date\<close> hands the string itself to
  pandas in the coercing mode. The result is the first day of that month exactly when
  that day is within the range of the timestamps of pandas, and \<open>NaT\<close> otherwise.
\<close>

theorem year_month_date:
  assumes "length y = 4" and "length m = 2" and "\<forall>c \<in> set (y @ m). is_digit c"
    and "1 \<le> digits_value m" and "digits_value m \<le> 12"
  shows "convert_publish_time (pandas_iso lo hi other other_coerce)
             (Str (y @ ''-'' @ m)) =
           Inr (if in_bounds lo hi (int (digits_value y), digits_value m, 1)
                then Timestamp (int (digits_value y)) (digits_value m) 1 0 else NaT) \<and>
         convert_date (pandas_iso lo hi other other_coerce) (Str (y @ ''-'' @ m)) =
           Inr (if in_bounds lo hi (int (digits_value y), digits_value m, 1)
                then Timestamp (int (digits_value y)) (digits_value m) 1 0 else NaT)"
proof -
  let ?s = "y @ ''-'' @ m"
  let ?a = "(int (digits_value y), digits_value m, 1::nat)"
  have len: "length ?s = 7" using assms(1,2) by simp
  have dash: "CHR ''-'' \<in> set ?s" by simp
  have v: "valid_date ?a" using assms(4,5) by (rule valid_first_day)
  have td: "to_datetime (pandas_iso lo hi other other_coerce) (Str (?s @ ''-01'')) =
      (if in_bounds lo hi ?a
       then Inr (Timestamp (int (digits_value y)) (digits_value m) 1 0)
       else Inl OutOfBoundsDatetime)"
    by (simp only: pandas_iso_def pandas.simps iso_to_datetime_def cell.case option.case
        iso_date_year_month_day [OF assms(1,2,3)] v if_True fst_conv snd_conv)
  have tc: "to_datetime_coerce (pandas_iso lo hi other other_coerce) (Str ?s) =
      (if in_bounds lo hi ?a
       then Inr (Timestamp (int (digits_value y)) (digits_value m) 1 0)
       else Inr NaT)"
    by (simp only: pandas_iso_def pandas.simps iso_to_datetime_coerce_def cell.case
        option.case iso_date_year_month [OF assms(1,2,3)] v if_True fst_conv snd_conv)
  have a: "convert_publish_time_try (pandas_iso lo hi other other_coerce) (Str ?s) =
      to_datetime (pandas_iso lo hi other other_coerce) (Str (?s @ ''-01''))"
    using len dash by (simp add: convert_publish_time_try_def isna_def)
  have b: "convert_date_try (pandas_iso lo hi other other_coerce) (Str ?s) =
      to_datetime_coerce (pandas_iso lo hi other other_coerce) (Str ?s)"
    using len by (simp add: convert_date_try_def isna_def)
  have c: "convert_publish_time (pandas_iso lo hi other other_coerce) (Str ?s) =
      Inr (if in_bounds lo hi ?a
           then Timestamp (int (digits_value y)) (digits_value m) 1 0 else NaT)"
    unfolding convert_publish_time_def a td by (simp add: except_NaT_def)
  have d: "convert_date (pandas_iso lo hi other other_coerce) (Str ?s) =
      Inr (if in_bounds lo hi ?a
           then Timestamp (int (digits_value y)) (digits_value m) 1 0 else NaT)"
    unfolding convert_date_def b tc by (simp add: except_NaT_def)
  from c d show ?thesis ..
qed

theorem year_month_date_witness:
  "convert_publish_time pandas_ns (Str ''2020-05'') = Inr (Timestamp 2020 5 1 0) \<and>
   convert_date pandas_ns (Str ''2020-05'') = Inr (Timestamp 2020 5 1 0)"
proof -
  have 1: "length ''2020'' = 4" by simp
  have 2: "length ''05'' = 2" by simp
  have 3: "\<forall>c \<in> set (''2020'' @ ''05''). is_digit c" by (simp add: is_digit_def)
  have 4: "digits_value ''2020'' = 2020" "digits_value ''05'' = 5"
    by (simp_all add: digits_value_def)
  have 5: "1 \<le> digits_value ''05''" "digits_value ''05'' \<le> 12" by (simp_all add: 4)
  from year_month_date [OF 1 2 3 5, of "(1677, 9, 22)" "(2262, 4, 11)"
      "\<lambda>v. Inl ParserError" "\<lambda>v. Inr NaT"]
  show ?thesis by (simp add: 4 pandas_ns_def in_bounds_def date_le_def)
qed

text \<open>
  The claim as the specification states it fails: \<open>0001-01\<close>, \<open>1677-09\<close> and \<open>2263-01\<close>
  have the form \<open>YYYY-MM\<close>, and with nanosecond timestamps date normalization gives
  \<open>NaT\<close> for each, in analysis.py and in app.py, not the first day of the month.
\<close>

theorem year_month_date_counterexample:
  "convert_publish_time pandas_ns (Str ''0001-01'') = Inr NaT \<and>
   convert_date pandas_ns (Str ''0001-01'') = Inr NaT \<and>
   convert_publish_time pandas_ns (Str ''1677-09'') = Inr NaT \<and>
   convert_date pandas_ns (Str ''1677-09'') = Inr NaT \<and>
   convert_publish_time pandas_ns (Str ''2263-01'') = Inr NaT \<and>
   convert_date pandas_ns (Str ''2263-01'') = Inr NaT"
  by code_simp

section \<open>Missing-value normalization\<close>

lemma fill_missing_row_fields:
  "abstract (fill_missing_row r) = Some (case abstract r of None \<Rightarrow> '''' | Some s \<Rightarrow> s)"
  "title (fill_missing_row r) = Some (case title r of None \<Rightarrow> ''Unknown Title'' | Some s \<Rightarrow> s)"
  "journal (fill_missing_row r) = Some (case journal r of None \<Rightarrow> ''Unknown Journal'' | Some s \<Rightarrow> s)"
  "authors (fill_missing_row r) = authors r"
  "doi (fill_missing_row r) = doi r"
  "publish_time (fill_missing_row r) = publish_time r"
  by (simp_all add: fill_missing_row_def fillna_def split: option.splits)

text \<open>
  C7. Missing-value normalization keeps the number of rows; in row \<open>i\<close> a missing
  abstract becomes the empty string, a missing title \<open>Unknown Title\<close>, a missing journal
  \<open>Unknown Journal\<close>; a present abstract, title or journal keeps its value, and the
  other columns are untouched.
\<close>

theorem fill_missing_substitutes:
  "length (fill_missing df) = length df \<and>
   (\<forall>i < length df.
      abstract (fill_missing df ! i) =
        (case abstract (df ! i) of None \<Rightarrow> Some '''' | Some s \<Rightarrow> Some s) \<and>
      title (fill_missing df ! i) =
        (case title (df ! i) of None \<Rightarrow> Some ''Unknown Title'' | Some s \<Rightarrow> Some s) \<and>
      journal (fill_missing df ! i) =
        (case journal (df ! i) of None \<Rightarrow> Some ''Unknown Journal'' | Some s \<Rightarrow> Some s) \<and>
      authors (fill_missing df ! i) = authors (df ! i) \<and>
      doi (fill_missing df ! i) = doi (df ! i) \<and>
      publish_time (fill_missing df ! i) = publish_time (df ! i))"
  by (simp add: fill_missing_def fill_missing_row_fields split: option.splits)

theorem fill_missing_substitutes_witness:
  "fill_missing
     [\<lparr>title = Some ''A Study'', abstract = None, journal = None, authors = None,
       doi = Some ''10.1/x'', publish_time = Str ''2020-05''\<rparr>,
      \<lparr>title = None, abstract = Some ''text'', journal = Some ''X'', authors = None,
       doi = None, publish_time = Str ''1850''\<rparr>] =
     [\<lparr>title = Some ''A Study'', abstract = Some '''', journal = Some ''Unknown Journal'',
       authors = None, doi = Some ''10.1/x'', publish_time = Str ''2020-05''\<rparr>,
      \<lparr>title = Some ''Unknown Title'', abstract = Some ''text'', journal = Some ''X'',
       authors = None, doi = None, publish_time = Str ''1850''\<rparr>]"
  using fill_missing_substitutes
    [of "[\<lparr>title = Some ''A Study'', abstract = None, journal = None, authors = None,
           doi = Some ''10.1/x'', publish_time = Str ''2020-05''\<rparr>,
          \<lparr>title = None, abstract = Some ''text'', journal = Some ''X'', authors = None,
           doi = None, publish_time = Str ''1850''\<rparr>]"]
  by (simp add: fill_missing_def fill_missing_row_def fillna_def)

section \<open>The post-normalization filter\<close>

lemma boolean_index_map: "boolean_index df (map p df) = filter p df"
  by (induction df) (simp_all add: boolean_index_def)

lemma and_mask_map: "and_mask (map p df) (map q df) = map (\<lambda>r. p r \<and> q r) df"
  by (induction df) (simp_all add: and_mask_def)

lemma remove_invalid_filter:
  "remove_invalid df =
     filter (\<lambda>r. title r \<noteq> Some ''Unknown Title'' \<and> ge_num (publication_year r) 1900) df"
  by (simp add: remove_invalid_def Let_def boolean_index_map ne_str_def conj_commute)

text \<open>
  C1, as the code has it. The filter of lines 100 and 101 keeps exactly the rows whose
  title is not the sentinel and whose publication year is defined and at least 1900:
  every row of the analysis set has such a title and such a year, and every row with
  an undefined year is dropped, because the comparison \<open>NaN >= 1900\<close> is false.
\<close>

theorem remove_invalid_keeps:
  "remove_invalid df =
     filter (\<lambda>r. title r \<noteq> Some ''Unknown Title'' \<and>
                 (case publication_year r of None \<Rightarrow> False | Some y \<Rightarrow> 1900 \<le> y)) df \<and>
   (\<forall>r \<in> set (remove_invalid df).
      title r \<noteq> Some ''Unknown Title'' \<and> (\<exists>y. publication_year r = Some y \<and> 1900 \<le> y)) \<and>
   (\<forall>r \<in> set df. publication_year r = None \<longrightarrow> r \<notin> set (remove_invalid df))"
  by (auto simp add: remove_invalid_filter ge_num_def split: option.splits)

theorem remove_invalid_keeps_witness:
  "remove_invalid
     [\<lparr>title = Some ''A Study'', abstract = Some '''', journal = Some ''Unknown Journal'',
       authors = None, doi = None, publish_time = Timestamp 2020 5 1 0,
       publication_year = Some 2020, abstract_word_count = 0, title_word_count = 2\<rparr>,
      \<lparr>title = Some ''Unknown Title'', abstract = Some '''', journal = Some ''X'',
       authors = None, doi = None, publish_time = Timestamp 1850 1 1 0,
       publication_year = Some 1850, abstract_word_count = 0, title_word_count = 2\<rparr>,
      \<lparr>title = Some ''Old'', abstract = Some '''', journal = Some ''X'',
       authors = None, doi = None, publish_time = Timestamp 1850 1 1 0,
       publication_year = Some 1850, abstract_word_count = 0, title_word_count = 1\<rparr>,
      \<lparr>title = Some ''Undated'', abstract = Some '''', journal = Some ''X'',
       authors = None, doi = None, publish_time = NaT,
       publication_year = None, abstract_word_count = 0, title_word_count = 1\<rparr>] =
     [\<lparr>title = Some ''A Study'', abstract = Some '''', journal = Some ''Unknown Journal'',
       authors = None, doi = None, publish_time = Timestamp 2020 5 1 0,
       publication_year = Some 2020, abstract_word_count = 0, title_word_count = 2\<rparr>]"
  using remove_invalid_keeps
    [of "[\<lparr>title = Some ''A Study'', abstract = Some '''', journal = Some ''Unknown Journal'',
       authors = None, doi = None, publish_time = Timestamp 2020 5 1 0,
       publication_year = Some 2020, abstract_word_count = 0, title_word_count = 2\<rparr>,
      \<lparr>title = Some ''Unknown Title'', abstract = Some '''', journal = Some ''X'',
       authors = None, doi = None, publish_time = Timestamp 1850 1 1 0,
       publication_year = Some 1850, abstract_word_count = 0, title_word_count = 2\<rparr>,
      \<lparr>title = Some ''Old'', abstract = Some '''', journal = Some ''X'',
       authors = None, doi = None, publish_time = Timestamp 1850 1 1 0,
       publication_year = Some 1850, abstract_word_count = 0, title_word_count = 1\<rparr>,
      \<lparr>title = Some ''Undated'', abstract = Some '''', journal = Some ''X'',
       authors = None, doi = None, publish_time = NaT,
       publication_year = None, abstract_word_count = 0, title_word_count = 1\<rparr>]"]
  by simp

text \<open>
  The claim as the specification states it fails: a row with the title \<open>A Study\<close> and an
  undefined year is not one the specification drops, and the filter drops it. The row
  is what cleaning makes of a raw row whose \<open>publish_time\<close> is missing.
\<close>

theorem remove_invalid_undefined_year_counterexample:
  "\<not> spec_dropped
       \<lparr>title = Some ''A Study'', abstract = Some '''', journal = Some ''Unknown Journal'',
        authors = None, doi = None, publish_time = NaT, publication_year = None,
        abstract_word_count = 0, title_word_count = 2\<rparr> \<and>
   remove_invalid
     [\<lparr>title = Some ''A Study'', abstract = Some '''', journal = Some ''Unknown Journal'',
       authors = None, doi = None, publish_time = NaT, publication_year = None,
       abstract_word_count = 0, title_word_count = 2\<rparr>] = [] \<and>
   clean pandas_ns
     [\<lparr>title = Some ''A Study'', abstract = None, journal = None, authors = None,
       doi = None, publish_time = NaN\<rparr>] =
     Inr [\<lparr>title = Some ''A Study'', abstract = Some '''', journal = Some ''Unknown Journal'',
       authors = None, doi = None, publish_time = NaT, publication_year = None,
       abstract_word_count = 0, title_word_count = 2\<rparr>]"
  by (simp add: spec_dropped_def remove_invalid_def boolean_index_def ne_str_def ge_num_def
      clean_def fill_missing_def fill_missing_row_def fillna_def convert_publish_time_def
      convert_publish_time_try_def isna_def except_NaT_def derive_row_def word_count_def
      astype_str_def split_def is_space_def dt_year_series_def datetimelike_def)

section \<open>The year-range filter\<close>

lemma foldl_min_le_all:
  "foldl min y ys \<le> (y::int) \<and> (\<forall>x \<in> set ys. foldl min y ys \<le> x)"
proof (induction ys arbitrary: y)
  case Nil
  then show ?case by simp
next
  case (Cons z zs)
  from Cons.IH [of "min y z"]
  have 1: "foldl min (min y z) zs \<le> min y z"
    and 2: "\<forall>x \<in> set zs. foldl min (min y z) zs \<le> x" by simp_all
  from 1 have "foldl min (min y z) zs \<le> y" "foldl min (min y z) zs \<le> z" by simp_all
  with 2 show ?case by simp
qed

lemma foldl_min_le: "x \<in> set (y # ys) \<Longrightarrow> foldl min y ys \<le> (x::int)"
  using foldl_min_le_all [of y ys] by auto

lemma foldl_max_ge_all:
  "(y::int) \<le> foldl max y ys \<and> (\<forall>x \<in> set ys. x \<le> foldl max y ys)"
proof (induction ys arbitrary: y)
  case Nil
  then show ?case by simp
next
  case (Cons z zs)
  from Cons.IH [of "max y z"]
  have 1: "max y z \<le> foldl max (max y z) zs"
    and 2: "\<forall>x \<in> set zs. x \<le> foldl max (max y z) zs" by simp_all
  from 1 have "y \<le> foldl max (max y z) zs" "z \<le> foldl max (max y z) zs" by simp_all
  with 2 show ?case by simp
qed

lemma foldl_max_ge: "x \<in> set (y # ys) \<Longrightarrow> (x::int) \<le> foldl max y ys"
  using foldl_max_ge_all [of y ys] by auto

lemma set_dropna: "set (dropna col) = {x. Some x \<in> set col}"
  by (induction col) (auto simp: dropna_def split: option.splits)

lemma series_min_le: "series_min col = Some lo \<Longrightarrow> Some y \<in> set col \<Longrightarrow> lo \<le> y"
  using foldl_min_le set_dropna [of col]
  by (auto simp: series_min_def split: list.splits)

lemma series_max_ge: "series_max col = Some hi \<Longrightarrow> Some y \<in> set col \<Longrightarrow> y \<le> hi"
  using foldl_max_ge set_dropna [of col]
  by (auto simp: series_max_def split: list.splits)

lemma filtered_df_filter:
  "filtered_df (lo, hi) df =
     filter (\<lambda>r. case publication_year r of None \<Rightarrow> False | Some y \<Rightarrow> lo \<le> y \<and> y \<le> hi) df"
proof -
  have "filtered_df (lo, hi) df =
          filter (\<lambda>r. ge_num (publication_year r) lo \<and> le_num (publication_year r) hi) df"
    by (simp add: filtered_df_def and_mask_map boolean_index_map)
  also have "\<dots> =
     filter (\<lambda>r. case publication_year r of None \<Rightarrow> False | Some y \<Rightarrow> lo \<le> y \<and> y \<le> hi) df"
    by (rule filter_cong) (auto simp: ge_num_def le_num_def split: option.splits)
  finally show ?thesis .
qed

text \<open>
  C8. The year-range filter of app.py returns exactly the rows whose publication year
  is defined and lies between the bounds, both included; a row with an undefined year
  is never returned. When every row has a defined year and the bounds are the least
  and the greatest year of the frame, the filter returns the frame unchanged, so the
  number of rows is the same as without the filter.
\<close>

theorem filtered_df_range:
  "filtered_df (lo, hi) df =
     filter (\<lambda>r. case publication_year r of None \<Rightarrow> False | Some y \<Rightarrow> lo \<le> y \<and> y \<le> hi) df \<and>
   (\<forall>r \<in> set df. publication_year r = None \<longrightarrow> r \<notin> set (filtered_df (lo, hi) df)) \<and>
   ((\<forall>r \<in> set df. publication_year r \<noteq> None) \<and> min_year df = Inr lo \<and> max_year df = Inr hi \<longrightarrow>
      filtered_df (lo, hi) df = df \<and> length (filtered_df (lo, hi) df) = length df)"
proof -
  have a: "filtered_df (lo, hi) df =
     filter (\<lambda>r. case publication_year r of None \<Rightarrow> False | Some y \<Rightarrow> lo \<le> y \<and> y \<le> hi) df"
    by (rule filtered_df_filter)
  have b: "\<forall>r \<in> set df. publication_year r = None \<longrightarrow> r \<notin> set (filtered_df (lo, hi) df)"
    by (simp add: a)
  have c: "filtered_df (lo, hi) df = df"
    if all: "\<forall>r \<in> set df. publication_year r \<noteq> None"
      and lo: "min_year df = Inr lo" and hi: "max_year df = Inr hi"
  proof -
    from lo have smin: "series_min (map publication_year df) = Some lo"
      by (auto simp: min_year_def split: option.splits)
    from hi have smax: "series_max (map publication_year df) = Some hi"
      by (auto simp: max_year_def split: option.splits)
    have "\<forall>r \<in> set df. case publication_year r of None \<Rightarrow> False | Some y \<Rightarrow> lo \<le> y \<and> y \<le> hi"
    proof
      fix r assume r: "r \<in> set df"
      with all obtain y where y: "publication_year r = Some y" by auto
      with r have m: "Some y \<in> set (map publication_year df)" by force
      have "lo \<le> y" "y \<le> hi"
        using series_min_le [OF smin m] series_max_ge [OF smax m] by simp_all
      with y show "case publication_year r of None \<Rightarrow> False | Some y \<Rightarrow> lo \<le> y \<and> y \<le> hi" by simp
    qed
    then show ?thesis by (simp add: a)
  qed
  from a b c show ?thesis by auto
qed

theorem filtered_df_range_witness:
  "min_year [sample_paper ''a'' (Some 2020), sample_paper ''b'' (Some 2019),
             sample_paper ''c'' (Some 2021)] = Inr 2019 \<and>
   max_year [sample_paper ''a'' (Some 2020), sample_paper ''b'' (Some 2019),
             sample_paper ''c'' (Some 2021)] = Inr 2021 \<and>
   filtered_df (2019, 2021)
     [sample_paper ''a'' (Some 2020), sample_paper ''b'' (Some 2019),
      sample_paper ''c'' (Some 2021)] =
     [sample_paper ''a'' (Some 2020), sample_paper ''b'' (Some 2019),
      sample_paper ''c'' (Some 2021)] \<and>
   length (filtered_df (2019, 2021)
     [sample_paper ''a'' (Some 2020), sample_paper ''b'' (Some 2019),
      sample_paper ''c'' (Some 2021)]) = 3"
proof -
  have 1: "min_year [sample_paper ''a'' (Some 2020), sample_paper ''b'' (Some 2019),
             sample_paper ''c'' (Some 2021)] = Inr 2019"
    by (simp add: min_year_def series_min_def dropna_def sample_paper_def)
  have 2: "max_year [sample_paper ''a'' (Some 2020), sample_paper ''b'' (Some 2019),
             sample_paper ''c'' (Some 2021)] = Inr 2021"
    by (simp add: max_year_def series_max_def dropna_def sample_paper_def)
  have 3: "\<forall>r \<in> set [sample_paper ''a'' (Some 2020), sample_paper ''b'' (Some 2019),
             sample_paper ''c'' (Some 2021)]. publication_year r \<noteq> None"
    by (simp add: sample_paper_def)
  from filtered_df_range [of 2019 2021 "[sample_paper ''a'' (Some 2020),
      sample_paper ''b'' (Some 2019), sample_paper ''c'' (Some 2021)]"] 1 2 3
  show ?thesis by (simp add: sample_paper_def)
qed

section \<open>Top journals\<close>

lemma bump_keys_old: "x \<in> fst ` set t \<Longrightarrow> map fst (bump x t) = map fst t"
proof (induction t)
  case Nil
  then show ?case by simp
next
  case (Cons p t)
  obtain k c where p: "p = (k, c)" by (cases p)
  show ?case
  proof (cases "k = x")
    case True
    with p show ?thesis by simp
  next
    case False
    with Cons.prems p have "x \<in> fst ` set t" by auto
    with Cons.IH p False show ?thesis by simp
  qed
qed

lemma bump_keys_new: "x \<notin> fst ` set t \<Longrightarrow> map fst (bump x t) = map fst t @ [x]"
  by (induction t) auto

lemma distinct_bump: "distinct (map fst t) \<Longrightarrow> distinct (map fst (bump x t))"
  by (cases "x \<in> fst ` set t") (simp_all add: bump_keys_old bump_keys_new)

lemma distinct_foldl_bump:
  "distinct (map fst t) \<Longrightarrow> distinct (map fst (foldl (\<lambda>t x. bump x t) t xs))"
  by (induction xs arbitrary: t) (simp_all add: distinct_bump)

lemma distinct_counter: "distinct (map fst (counter xs))"
  by (simp add: counter_def distinct_foldl_bump)

lemma distinct_sort_desc: "distinct (map fst t) \<Longrightarrow> distinct (map fst (sort_desc t))"
  by (simp add: sort_desc_def distinct_map)

lemma filter_take_one:
  "distinct (map fst xs) \<Longrightarrow>
   filter (\<lambda>p. fst p \<noteq> u) (take n xs) =
     take (if u \<in> fst ` set (take n xs) then n - 1 else n) (filter (\<lambda>p. fst p \<noteq> u) xs)"
proof (induction xs arbitrary: n)
  case Nil
  then show ?case by simp
next
  case (Cons x xs)
  show ?case
  proof (cases n)
    case 0
    then show ?thesis by simp
  next
    case (Suc k)
    show ?thesis
    proof (cases "fst x = u")
      case True
      with Cons.prems have "u \<notin> fst ` set xs" by auto
      then have "filter (\<lambda>p. fst p \<noteq> u) xs = xs"
        by (auto simp: filter_id_conv)
      moreover from \<open>u \<notin> fst ` set xs\<close> have "filter (\<lambda>p. fst p \<noteq> u) (take k xs) = take k xs"
        by (auto simp: filter_id_conv dest: in_set_takeD)
      ultimately show ?thesis using True Suc by simp
    next
      case False
      from Cons.prems have "distinct (map fst xs)" by simp
      from Cons.IH [OF this, of k]
      have ih: "filter (\<lambda>p. fst p \<noteq> u) (take k xs) =
          take (if u \<in> fst ` set (take k xs) then k - 1 else k) (filter (\<lambda>p. fst p \<noteq> u) xs)" .
      show ?thesis
      proof (cases "u \<in> fst ` set (take k xs)")
        case True
        then have "k \<noteq> 0" by (cases k) auto
        with True False Suc ih show ?thesis by (cases k) auto
      next
        case no: False
        with False Suc ih show ?thesis by auto
      qed
    qed
  qed
qed

lemma filter_sort_desc: "filter P (sort_desc t) = sort_desc (filter P t)"
  by (simp add: sort_desc_def filter_sort)

text \<open>
  C2, as the code has it. analysis.py sorts all journal counts, \<open>Unknown Journal\<close>
  included, cuts the table to its first \<open>n\<close> rows (\<open>n = 15\<close> in the script) and only
  then removes the row of \<open>Unknown Journal\<close>. The result is the first \<open>n - 1\<close> rows of
  the specification's ranking when \<open>Unknown Journal\<close> is among the first \<open>n\<close> rows of
  the sorted counts, and its first \<open>n\<close> rows otherwise; so it agrees with the
  specification's top \<open>n\<close> when \<open>Unknown Journal\<close> is not among those rows, and its
  first \<open>m\<close> rows are the specification's top \<open>m\<close> for every \<open>m < n\<close> (the plot
  shows the first ten of the fifteen).
\<close>

theorem top_journals_head_truncates_first:
  "top_journals_head n journals =
     take (if ''Unknown Journal'' \<in> fst ` set (head n (value_counts journals)) then n - 1 else n)
       (sort_desc (filter (\<lambda>p. fst p \<noteq> ''Unknown Journal'') (counter (dropna journals)))) \<and>
   (''Unknown Journal'' \<notin> fst ` set (head n (value_counts journals)) \<longrightarrow>
      top_journals_head n journals = spec_top_journals n journals) \<and>
   (m < n \<longrightarrow> take m (top_journals_head n journals) = spec_top_journals m journals)"
proof -
  let ?u = "''Unknown Journal''"
  let ?s = "sort_desc (filter (\<lambda>p. fst p \<noteq> ?u) (counter (dropna journals)))"
  have d: "distinct (map fst (value_counts journals))"
    by (simp add: value_counts_def distinct_sort_desc distinct_counter)
  have a: "top_journals_head n journals =
     take (if ?u \<in> fst ` set (head n (value_counts journals)) then n - 1 else n) ?s"
    using filter_take_one [OF d, of ?u n]
    by (simp add: top_journals_head_def head_def value_counts_def filter_sort_desc)
  have b: "top_journals_head n journals = spec_top_journals n journals"
    if "?u \<notin> fst ` set (head n (value_counts journals))"
    using a that by (simp add: spec_top_journals_def)
  have c: "take m (top_journals_head n journals) = spec_top_journals m journals" if "m < n"
  proof -
    from that have "m \<le> n - 1" by simp
    with that a show ?thesis by (simp add: spec_top_journals_def min_absorb1)
  qed
  from a b c show ?thesis by blast
qed

theorem top_journals_head_truncates_first_witness:
  "top_journals nature_example = [(''Nature'', 5), (''Cell'', 3)] \<and>
   spec_top_journals 10 nature_example = [(''Nature'', 5), (''Cell'', 3)]"
proof -
  have 1: "top_journals nature_example = [(''Nature'', 5), (''Cell'', 3)]"
    by code_simp
  have 2: "(10::nat) < 15" by simp
  from top_journals_head_truncates_first [of 15 nature_example 10] 2
  have 3: "take 10 (top_journals_head 15 nature_example) = spec_top_journals 10 nature_example"
    by blast
  from 1 3 show ?thesis by (simp add: top_journals_def)
qed

text \<open>
  The claim as the specification states it fails. With sixteen journals of different
  counts, \<open>Unknown Journal\<close> the most frequent, \<open>top_journals\<close> has fourteen rows where
  excluding first and cutting to fifteen gives fifteen. The dashboard's table of
  app.py does not exclude \<open>Unknown Journal\<close> at all: on the scenario's counts, with
  the slider at its least value 5, it starts with that row.
\<close>

theorem top_journals_counterexample:
  "top_journals ranked_example =
     [(''a'', 15), (''b'', 14), (''c'', 13), (''d'', 12), (''e'', 11), (''f'', 10), (''g'', 9),
      (''h'', 8), (''i'', 7), (''j'', 6), (''k'', 5), (''l'', 4), (''m'', 3), (''n'', 2)] \<and>
   spec_top_journals 15 ranked_example =
     [(''a'', 15), (''b'', 14), (''c'', 13), (''d'', 12), (''e'', 11), (''f'', 10), (''g'', 9),
      (''h'', 8), (''i'', 7), (''j'', 6), (''k'', 5), (''l'', 4), (''m'', 3), (''n'', 2),
      (''o'', 1)] \<and>
   app_top_journals 5 nature_example =
     [(''Unknown Journal'', 10), (''Nature'', 5), (''Cell'', 3)]"
  by code_simp

section \<open>Title words\<close>

text \<open>
  C3. On the single title \<open>COVID-19 Analysis of Lung Disease\<close> the word analysis of
  analysis.py counts three words, \<open>covid19\<close>, \<open>lung\<close> and \<open>disease\<close>: \<open>clean_text\<close>
  deletes the hyphen, so \<open>COVID-19\<close> becomes the one token \<open>covid19\<close>, which is not a
  stop word, and the stop words \<open>covid\<close> and \<open>19\<close> never match. The word analysis of
  app.py counts \<open>lung\<close> and \<open>disease\<close> only.
\<close>

theorem word_freq_covid19:
  "word_freq [Some ''COVID-19 Analysis of Lung Disease''] =
     [(''covid19'', 1), (''lung'', 1), (''disease'', 1)] \<and>
   filtered_words [Some ''COVID-19 Analysis of Lung Disease''] =
     [''covid19'', ''lung'', ''disease''] \<and>
   app_word_freq [Some ''COVID-19 Analysis of Lung Disease''] =
     [(''lung'', 1), (''disease'', 1)]"
  by code_simp

lemma findall_words_from_tokens:
  "w \<in> set (findall_words_from prev s) \<Longrightarrow> 3 \<le> length w \<and> (\<forall>c \<in> set w. is_az c)"
proof (induction prev s rule: findall_words_from.induct)
  case (1 prev)
  then show ?case by (simp add: findall_words_from.simps(1))
next
  case (2 prev c cs)
  define run where "run = takeWhile is_az (c # cs)"
  define rest where "rest = dropWhile is_az (c # cs)"
  define m where "m \<longleftrightarrow> \<not> prev \<and> is_az c \<and> 3 \<le> length run \<and>
            (case rest of [] \<Rightarrow> True | d # ds \<Rightarrow> \<not> is_word d)"
  have step: "findall_words_from prev (c # cs) =
      (if m then run # findall_words_from True rest else findall_words_from (is_word c) cs)"
    by (simp only: findall_words_from.simps(2) Let_def run_def rest_def m_def)
  have az: "\<forall>a \<in> set run. is_az a"
    unfolding run_def by (blast dest: set_takeWhileD)
  show ?case
  proof (cases m)
    case True
    from True have cond: "\<not> prev \<and> is_az c \<and> 3 \<le> length run \<and>
            (case rest of [] \<Rightarrow> True | d # ds \<Rightarrow> \<not> is_word d)" unfolding m_def .
    from cond have len: "3 \<le> length run" by blast
    from True step have "findall_words_from prev (c # cs) = run # findall_words_from True rest"
      by (simp only: if_True)
    with "2.prems" have "w \<in> set (run # findall_words_from True rest)" by (simp only:)
    then have "w = run \<or> w \<in> set (findall_words_from True rest)" by simp
    then show ?thesis
    proof
      assume "w = run"
      with len az show ?thesis by blast
    next
      assume "w \<in> set (findall_words_from True rest)"
      then show ?thesis by (rule "2.IH"(1) [OF run_def rest_def cond])
    qed
  next
    case False
    then have ncond: "\<not> (\<not> prev \<and> is_az c \<and> 3 \<le> length run \<and>
            (case rest of [] \<Rightarrow> True | d # ds \<Rightarrow> \<not> is_word d))" unfolding m_def .
    from False step have "findall_words_from prev (c # cs) = findall_words_from (is_word c) cs"
      by (simp only: if_False)
    with "2.prems" have "w \<in> set (findall_words_from (is_word c) cs)" by (simp only:)
    then show ?thesis by (rule "2.IH"(2) [OF run_def rest_def ncond])
  qed
qed

lemma set_most_common: "set (most_common n t) \<subseteq> set t"
  using set_take_subset [of n "sort_desc t"] by (simp add: most_common_def sort_desc_def)

lemma keys_bump: "fst ` set (bump x t) = insert x (fst ` set t)"
proof -
  have "set (map fst (bump x t)) = insert x (set (map fst t))"
    by (cases "x \<in> fst ` set t") (auto simp: bump_keys_old bump_keys_new)
  then show ?thesis by simp
qed

lemma keys_foldl_bump:
  "fst ` set (foldl (\<lambda>t x. bump x t) t xs) = fst ` set t \<union> set xs"
  by (induction xs arbitrary: t) (simp_all add: keys_bump)

lemma keys_counter: "fst ` set (counter xs) = set xs"
  by (simp add: counter_def keys_foldl_bump)

lemma is_az_not_digit: "is_az c \<Longrightarrow> \<not> is_digit c"
  by (simp add: is_az_def is_digit_def Let_def)

text \<open>
  C10. Every word in the dashboard's top-words table is made of the lower-case letters
  \<open>a\<close> to \<open>z\<close> only and has three letters or more; no digit occurs in it. This holds
  for the table of fifteen words that app.py shows and for every other table size.
\<close>

theorem app_word_freq_tokens:
  "(\<forall>(w, k) \<in> set (app_word_freq titles).
      3 \<le> length w \<and> (\<forall>c \<in> set w. is_az c \<and> \<not> is_digit c)) \<and>
   (\<forall>(w, k) \<in> set (most_common n (counter (app_filtered_words titles))).
      3 \<le> length w \<and> (\<forall>c \<in> set w. is_az c \<and> \<not> is_digit c))"
proof -
  have tok: "3 \<le> length w \<and> (\<forall>c \<in> set w. is_az c \<and> \<not> is_digit c)"
    if "(w, k) \<in> set (most_common i (counter (app_filtered_words titles)))" for w k i
  proof -
    from that set_most_common have "(w, k) \<in> set (counter (app_filtered_words titles))"
      by blast
    then have "w \<in> fst ` set (counter (app_filtered_words titles))" by force
    then have "w \<in> set (app_filtered_words titles)" by (simp only: keys_counter)
    then have "w \<in> set (findall_words_from False (lower (join '' '' (map astype_str titles))))"
      by (simp add: app_filtered_words_def findall_words_def Let_def)
    from findall_words_from_tokens [OF this] show ?thesis
      by (blast dest: is_az_not_digit)
  qed
  have a: "\<forall>(w, k) \<in> set (app_word_freq titles).
      3 \<le> length w \<and> (\<forall>c \<in> set w. is_az c \<and> \<not> is_digit c)"
    unfolding app_word_freq_def using tok by blast
  have b: "\<forall>(w, k) \<in> set (most_common n (counter (app_filtered_words titles))).
      3 \<le> length w \<and> (\<forall>c \<in> set w. is_az c \<and> \<not> is_digit c)"
    using tok by blast
  from a b show ?thesis ..
qed

theorem app_word_freq_tokens_witness:
  "app_word_freq [Some ''COVID-19 and covid19 in 2 labs'', Some ''SARS-CoV-2 spread in labs''] =
     [(''labs'', 2), (''spread'', 1)]"
proof -
  have "app_word_freq [Some ''COVID-19 and covid19 in 2 labs'', Some ''SARS-CoV-2 spread in labs''] =
     [(''labs'', 2), (''spread'', 1)]"
    by code_simp
  with app_word_freq_tokens
    [of "[Some ''COVID-19 and covid19 in 2 labs'', Some ''SARS-CoV-2 spread in labs'']" 15]
  show ?thesis by simp
qed

section \<open>Recomputing the aggregates\<close>

lemma analyze_tables:
  "g_df_clean (analyze e) = g_df_clean e"
  "g_yearly_counts (analyze e) = yearly_counts (map publication_year (g_df_clean e))"
  "g_top_journals (analyze e) = top_journals (map journal (g_df_clean e))"
  "g_word_freq (analyze e) = word_freq (map title (g_df_clean e))"
  by (simp_all add: analyze_def Let_def yearly_counts_def top_journals_def top_journals_head_def
      word_freq_def filtered_words_def)

text \<open>
  C9. Running lines 114 to 138 of analysis.py leaves \<open>df_clean\<close> as it was, and
  running them a second time changes nothing: the state after two runs is the state
  after one. The three tables depend on \<open>df_clean\<close> alone: from two states with the
  same \<open>df_clean\<close>, whatever the other globals hold, the yearly counts, the top
  journals and the word frequencies come out the same, rows of equal count in the same
  order.
\<close>

theorem analyze_twice:
  "analyze (analyze e) = analyze e \<and>
   g_df_clean (analyze e) = g_df_clean e \<and>
   (g_df_clean e' = g_df_clean e \<longrightarrow>
      g_yearly_counts (analyze e') = g_yearly_counts (analyze e) \<and>
      g_top_journals (analyze e') = g_top_journals (analyze e) \<and>
      g_word_freq (analyze e') = g_word_freq (analyze e))"
proof -
  have a: "analyze (analyze e) = analyze e"
    by (simp add: analyze_def Let_def)
  show ?thesis using a by (simp add: analyze_tables)
qed

theorem analyze_twice_witness:
  "g_yearly_counts (analyze (sample_env [''stale''] [(''Old'', 7)])) = [(2020, 2), (2021, 1)] \<and>
   g_top_journals (analyze (sample_env [''stale''] [(''Old'', 7)])) = [(''Nature'', 2)] \<and>
   g_word_freq (analyze (sample_env [''stale''] [(''Old'', 7)])) =
     [(''lung'', 2), (''imaging'', 2), (''covid19'', 1), (''disease'', 1)] \<and>
   g_yearly_counts (analyze (sample_env [] [])) = [(2020, 2), (2021, 1)] \<and>
   g_top_journals (analyze (sample_env [] [])) = [(''Nature'', 2)] \<and>
   g_word_freq (analyze (sample_env [] [])) =
     [(''lung'', 2), (''imaging'', 2), (''covid19'', 1), (''disease'', 1)]"
proof -
  have 1: "g_yearly_counts (analyze (sample_env [] [])) = [(2020, 2), (2021, 1)]"
    by code_simp
  have 2: "g_top_journals (analyze (sample_env [] [])) = [(''Nature'', 2)]"
    by code_simp
  have 3: "g_word_freq (analyze (sample_env [] [])) =
     [(''lung'', 2), (''imaging'', 2), (''covid19'', 1), (''disease'', 1)]"
    by code_simp
  have 4: "g_df_clean (sample_env [''stale''] [(''Old'', 7)]) = g_df_clean (sample_env [] [])"
    by (simp add: sample_env_def)
  from analyze_twice [of "sample_env [] []" "sample_env [''stale''] [(''Old'', 7)]"] 4
  have "g_yearly_counts (analyze (sample_env [''stale''] [(''Old'', 7)])) =
          g_yearly_counts (analyze (sample_env [] [])) \<and>
        g_top_journals (analyze (sample_env [''stale''] [(''Old'', 7)])) =
          g_top_journals (analyze (sample_env [] [])) \<and>
        g_word_freq (analyze (sample_env [''stale''] [(''Old'', 7)])) =
          g_word_freq (analyze (sample_env [] []))"
    by blast
  with 1 2 3 show ?thesis by simp
qed

end
